theory Spec2Isabelle
  imports Complex_Main "HOL-Library.Sublist"
begin

section \<open>JavaScript strings\<close>

text \<open>
  A JavaScript string is a sequence of 16-bit code units, held here as the list of their
  numbers (each below 65536 in a string of the program). \<open>js\<close> embeds an ASCII literal
  of the source text.
\<close>

type_synonym code_unit = nat
type_synonym jsstring = "code_unit list"

definition js :: "string \<Rightarrow> jsstring" where
  "js s = map of_char s"

definition newline :: code_unit where
  "newline = 0x0A"

text \<open>
  \<^verbatim>\<open>code.split('\n')\<close>: the pieces between the separators; a string without a separator
  (the empty string too) gives one piece.
\<close>

fun split_lines :: "jsstring \<Rightarrow> jsstring list" where
  "split_lines [] = [[]]"
| "split_lines (c # cs) =
     (let rest = split_lines cs
      in if c = newline then [] # rest else (c # hd rest) # tl rest)"

section \<open>The regular expressions of the pattern table\<close>

text \<open>
  The fifteen patterns of \<^verbatim>\<open>dangerousPatterns\<close> are built from literal characters,
  \<^verbatim>\<open>\s*\<close>, \<^verbatim>\<open>\s+\<close>, a top-level alternation and the flag \<^verbatim>\<open>i\<close>. None has the
  flags \<^verbatim>\<open>g\<close> or \<^verbatim>\<open>y\<close>, so \<^verbatim>\<open>test\<close> keeps no position between calls: it
  answers whether some substring of the line matches.
\<close>

datatype atom = Lit code_unit | SpaceStar | SpacePlus

record regex =
  alternatives :: "atom list list"
  ignoreCase :: bool

text \<open>The class \<^verbatim>\<open>\s\<close>: the white space and line terminator code units of ECMAScript.\<close>

definition is_space :: "code_unit \<Rightarrow> bool" where
  "is_space c \<longleftrightarrow>
     c \<in> {0x09, 0x0A, 0x0B, 0x0C, 0x0D, 0x20, 0xA0, 0x1680, 0x2028, 0x2029,
          0x202F, 0x205F, 0x3000, 0xFEFF} \<or> (0x2000 \<le> c \<and> c \<le> 0x200A)"

text \<open>
  Case folding of a regular expression without the flag \<^verbatim>\<open>u\<close> maps a code unit to its
  upper case, except that a code unit from 128 on is never mapped below 128. Every
  literal of the table is ASCII, so only the ASCII letters matter: a code unit equals
  an ASCII literal after folding exactly when both have the same ASCII upper case.
\<close>

definition canonicalize :: "code_unit \<Rightarrow> code_unit" where
  "canonicalize c = (if 0x61 \<le> c \<and> c \<le> 0x7A then c - 0x20 else c)"

definition unit_matches :: "bool \<Rightarrow> code_unit \<Rightarrow> code_unit \<Rightarrow> bool" where
  "unit_matches ic p c \<longleftrightarrow> (if ic then canonicalize p = canonicalize c else p = c)"

text \<open>\<open>match_here ic r s\<close>: some prefix of \<open>s\<close> matches the atom sequence \<open>r\<close>.\<close>

fun match_here :: "bool \<Rightarrow> atom list \<Rightarrow> jsstring \<Rightarrow> bool" where
  "match_here ic [] s = True"
| "match_here ic (Lit p # r) [] = False"
| "match_here ic (Lit p # r) (c # s) = (unit_matches ic p c \<and> match_here ic r s)"
| "match_here ic (SpaceStar # r) [] = match_here ic r []"
| "match_here ic (SpaceStar # r) (c # s) =
     ((is_space c \<and> match_here ic (SpaceStar # r) s) \<or> match_here ic r (c # s))"
| "match_here ic (SpacePlus # r) [] = False"
| "match_here ic (SpacePlus # r) (c # s) = (is_space c \<and> match_here ic (SpaceStar # r) s)"

definition match_alternatives :: "regex \<Rightarrow> jsstring \<Rightarrow> bool" where
  "match_alternatives re s = list_ex (\<lambda>r. match_here (ignoreCase re) r s) (alternatives re)"

text \<open>The search for a match tries every start position, from the left.\<close>

fun search :: "regex \<Rightarrow> jsstring \<Rightarrow> bool" where
  "search re [] = match_alternatives re []"
| "search re (c # s) = (match_alternatives re (c # s) \<or> search re s)"

definition test :: "regex \<Rightarrow> jsstring \<Rightarrow> bool" where
  "test re s = search re s"

text \<open>
  \<^verbatim>\<open>(code.match(/word/g) || []).length\<close> for a literal word: the matches are found from
  the left, each search resuming where the previous match ended (one code unit further
  after an empty match).
\<close>

function count_matches :: "jsstring \<Rightarrow> jsstring \<Rightarrow> nat" where
  "count_matches w [] = (if w = [] then 1 else 0)"
| "count_matches w (c # s) =
     (if prefix w (c # s) then Suc (count_matches w (drop (length w - 1) s))
      else count_matches w s)"
  by pat_completeness auto
termination
  by (relation "measure (\<lambda>(w, s). length s)") auto

section \<open>The pattern table\<close>

datatype severity = Low | Medium | High

record PatternRule =
  rule_pattern :: regex
  name :: jsstring
  rule_description :: jsstring
  rule_severity :: severity

definition lit :: "string \<Rightarrow> atom list" where
  "lit s = map Lit (js s)"

definition rule :: "atom list list \<Rightarrow> bool \<Rightarrow> string \<Rightarrow> string \<Rightarrow> severity \<Rightarrow> PatternRule" where
  "rule alts ic n d sev =
     \<lparr>rule_pattern = \<lparr>alternatives = alts, ignoreCase = ic\<rparr>, name = js n,
      rule_description = js d, rule_severity = sev\<rparr>"

definition dangerousPatterns :: "PatternRule list" where
  "dangerousPatterns =
    [rule [lit ''eval'' @ [SpaceStar] @ lit ''(''] False ''eval()'' ''Dynamic code execution'' High,
     rule [lit ''Function'' @ [SpaceStar] @ lit ''(''] False ''Function()''
       ''Dynamic function creation'' High,
     rule [lit ''import'' @ [SpacePlus]] False ''import statements'' ''Module imports'' Medium,
     rule [lit ''require'' @ [SpaceStar] @ lit ''(''] False ''require()'' ''Module requires'' Medium,
     rule [lit ''process.''] False ''process object'' ''Process access'' High,
     rule [lit ''global.''] False ''global object'' ''Global object access'' Medium,
     rule [lit ''window.''] False ''window object'' ''DOM access'' Low,
     rule [lit ''document.''] False ''document object'' ''DOM access'' Low,
     rule [lit ''fetch'' @ [SpaceStar] @ lit ''(''] False ''fetch()'' ''Network requests'' High,
     rule [lit ''XMLHttpRequest''] True ''XHR'' ''Network requests'' High,
     rule [lit ''WebSocket''] True ''WebSocket'' ''WebSocket connections'' High,
     rule [lit ''localStorage'', lit ''sessionStorage''] True ''storage''
       ''Browser storage access'' Medium,
     rule [lit ''setTimeout'', lit ''setInterval''] True ''timers'' ''Timer functions'' Medium,
     rule [lit ''while'' @ [SpaceStar] @ lit ''('' @ [SpaceStar] @ lit ''true'' @ [SpaceStar]
             @ lit '')''] True ''infinite loop'' ''Potential infinite loop'' High,
     rule [lit ''for'' @ [SpaceStar] @ lit ''('' @ [SpaceStar] @ lit '';;'' @ [SpaceStar]
             @ lit '')''] True ''infinite loop'' ''Potential infinite loop'' High]"

section \<open>The security analysis\<close>

record SecurityViolation =
  line :: nat
  pattern :: jsstring
  description :: jsstring
  severity :: severity

record SecurityReport =
  allowed :: bool
  violations :: "SecurityViolation list"
  complexityScore :: rat

text \<open>The inner \<^verbatim>\<open>forEach\<close>: one violation for every rule that matches the line, in table order.\<close>

definition scan_line :: "nat \<Rightarrow> jsstring \<Rightarrow> SecurityViolation list" where
  "scan_line lineNum l =
     map (\<lambda>p. \<lparr>line = lineNum, pattern = name p, description = rule_description p,
               severity = rule_severity p\<rparr>)
         (filter (\<lambda>p. test (rule_pattern p) l) dangerousPatterns)"

text \<open>The outer \<^verbatim>\<open>forEach\<close>: the lines in order, numbered from 1.\<close>

definition scan :: "jsstring list \<Rightarrow> SecurityViolation list" where
  "scan ls = concat (map (\<lambda>(index, l). scan_line (index + 1) l) (enumerate 0 ls))"

text \<open>
  JavaScript numbers are IEEE doubles and \<^verbatim>\<open>/\<close> is not integer division; the score is
  computed here in exact rational arithmetic, which the double result follows up to
  rounding.
\<close>

definition analyzeSecurity :: "jsstring \<Rightarrow> SecurityReport" where
  "analyzeSecurity code =
     (let lines = split_lines code;
          violations = scan lines;
          complexityScore = 0
            + of_nat (length violations) * 10
            + of_nat (length lines) / 10
            + of_nat (count_matches (js ''function'') code) * 5
            + of_nat (count_matches (js ''class'') code) * 3;
          hasHighSeverity = list_ex (\<lambda>v. severity v = High) violations;
          hasTooManyViolations = (length violations > 5)
      in \<lparr>allowed = (\<not> hasHighSeverity \<and> \<not> hasTooManyViolations),
          violations = violations,
          complexityScore = min complexityScore 100\<rparr>)"

text \<open>
  Two notions used to state properties of the analysis. \<open>literal_of r\<close> is the text that
  an atom sequence matches when each of its \<^verbatim>\<open>\s*\<close> matches nothing. \<open>occurs ic w s\<close>
  says that \<open>w\<close> is a substring of \<open>s\<close>, up to the case of ASCII letters when \<open>ic\<close> holds.
\<close>

fun literal_of :: "atom list \<Rightarrow> jsstring" where
  "literal_of [] = []"
| "literal_of (Lit p # r) = p # literal_of r"
| "literal_of (SpaceStar # r) = literal_of r"
| "literal_of (SpacePlus # r) = literal_of r"

definition occurs :: "bool \<Rightarrow> jsstring \<Rightarrow> jsstring \<Rightarrow> bool" where
  "occurs ic w s =
     (if ic then sublist (map canonicalize w) (map canonicalize s) else sublist w s)"

text \<open>A source of six lines, each matched by one rule of severity medium and by no other.\<close>

definition six_medium_lines :: jsstring where
  "six_medium_lines =
     js ''import a'' @ newline # js ''require(b)'' @ newline # js ''global.c'' @ newline
       # js ''localStorage'' @ newline # js ''setTimeout'' @ newline # js ''import d''"

section \<open>JavaScript values\<close>

text \<open>
  The executor handles values that the evaluated script makes, and JavaScript's types do
  not bind them. A value that ends up in a field of the result is undefined, null, a
  boolean, a string, or anything else; of the last the model keeps whether it is truthy
  and the text that \<^verbatim>\<open>String\<close> gives of it.
\<close>

datatype jsvalue = Undefined | Null | Boolean bool | Str jsstring | Other bool jsstring

fun truthy :: "jsvalue \<Rightarrow> bool" where
  "truthy Undefined = False"
| "truthy Null = False"
| "truthy (Boolean b) = b"
| "truthy (Str s) = (s \<noteq> [])"
| "truthy (Other b s) = b"

fun text_of :: "jsvalue \<Rightarrow> jsstring" where
  "text_of Undefined = js ''undefined''"
| "text_of Null = js ''null''"
| "text_of (Boolean b) = (if b then js ''true'' else js ''false'')"
| "text_of (Str s) = s"
| "text_of (Other b s) = s"

text \<open>
  Reading a property of a value of the script, applying \<^verbatim>\<open>instanceof\<close> or \<^verbatim>\<open>String\<close> to
  it, runs code of the script (a getter, a proxy trap, \<^verbatim>\<open>toString\<close>): it gives a value or
  it raises.
\<close>

datatype ('e, 'a) reading = Gives 'a | Raises 'e

text \<open>
  A thrown value, as far as the executor inspects it: \<^verbatim>\<open>_ instanceof Error\<close>,
  \<^verbatim>\<open>_.message\<close> and \<^verbatim>\<open>String(_)\<close>, each read at most once on any path.
\<close>

datatype thrown =
  Thrown (is_Error: "(thrown, bool) reading") (message: "(thrown, jsvalue) reading")
    (to_String: "(thrown, jsstring) reading")

text \<open>
  An instance of \<^verbatim>\<open>Error\<close> or of a subclass as the engine makes it, with the text that
  \<^verbatim>\<open>Error.prototype.toString\<close> gives.
\<close>

definition Error_object :: "string \<Rightarrow> jsstring \<Rightarrow> thrown" where
  "Error_object cls msg =
     Thrown (Gives True) (Gives (Str msg))
       (Gives (if msg = [] then js cls else js cls @ js '': '' @ msg))"

text \<open>
  The value that \<^verbatim>\<open>await Promise.race(_)\<close> hands to \<^verbatim>\<open>result\<close>, as far as the executor
  inspects it: \<^verbatim>\<open>result.success\<close> is read twice (for the assignment and for the test)
  and \<^verbatim>\<open>result.error\<close> once. \<open>object_with s e\<close> is an object with these two data
  properties; a value without them, such as a number, is \<open>object_with Undefined Undefined\<close>;
  for null and undefined the first reading raises a TypeError.
\<close>

datatype result_value =
  Result "(thrown, jsvalue) reading" "(thrown, jsvalue) reading" "(thrown, jsvalue) reading"

definition object_with :: "jsvalue \<Rightarrow> jsvalue \<Rightarrow> result_value" where
  "object_with s e = Result (Gives s) (Gives s) (Gives e)"

section \<open>The sandbox console\<close>

text \<open>
  \<^verbatim>\<open>executeJavaScript\<close> keeps four variables, \<^verbatim>\<open>output\<close>, \<^verbatim>\<open>error\<close>, \<^verbatim>\<open>success\<close> and
  \<^verbatim>\<open>exitCode\<close>, and returns them as its result. The sandbox console is a closure
  over the first two. \<^verbatim>\<open>success\<close> and \<^verbatim>\<open>error\<close> are assigned values of the script;
  \<^verbatim>\<open>output\<close> only ever grows by strings.
\<close>

text \<open>The field \<open>output'\<close> is the variable \<^verbatim>\<open>output\<close> (a reserved word here).\<close>

record ExecutionState =
  success :: jsvalue
  output' :: jsstring
  error :: jsvalue
  exitCode :: nat

text \<open>
  What the console looks at in an argument: whether \<^verbatim>\<open>typeof arg === 'object'\<close>, the text
  of \<^verbatim>\<open>JSON.stringify(arg, null, 2)\<close> and the text of \<^verbatim>\<open>String(arg)\<close>. A call in which
  one of these conversions throws changes no variable (the \<^verbatim>\<open>+=\<close> is never reached) and
  is a throw of the script.
\<close>

record ConsoleArg =
  is_object :: bool
  as_json :: jsstring
  as_string :: jsstring

datatype channel = Log | Error | Warn | Info

text \<open>The properties of the object literal \<^verbatim>\<open>sandboxConsole\<close>, in source order.\<close>

definition sandboxConsole_properties :: "(string \<times> channel) list" where
  "sandboxConsole_properties =
     [(''log'', Log), (''error'', Error), (''warn'', Warn), (''info'', Info)]"

definition console_method :: "string \<Rightarrow> channel option" where
  "console_method m = map_of sandboxConsole_properties m"

fun join :: "jsstring \<Rightarrow> jsstring list \<Rightarrow> jsstring" where
  "join sep [] = []"
| "join sep [x] = x"
| "join sep (x # y # ys) = x @ sep @ join sep (y # ys)"

text \<open>
  \<^verbatim>\<open>error += line\<close> concatenates strings; \<^verbatim>\<open>error\<close> is a string whenever the console is
  called, and the operator would turn any other value into its text first.
\<close>

fun sandboxConsole :: "channel \<Rightarrow> ConsoleArg list \<Rightarrow> ExecutionState \<Rightarrow> ExecutionState" where
  "sandboxConsole Log args st =
     st\<lparr>output' := output' st
           @ join (js '' '') (map (\<lambda>arg. if is_object arg then as_json arg else as_string arg) args)
           @ [newline]\<rparr>"
| "sandboxConsole Error args st =
     st\<lparr>error := Str (text_of (error st) @ join (js '' '') (map as_string args) @ [newline])\<rparr>"
| "sandboxConsole Warn args st =
     st\<lparr>output' := output' st @ js ''[WARN] '' @ join (js '' '') (map as_string args)
           @ [newline]\<rparr>"
| "sandboxConsole Info args st =
     st\<lparr>output' := output' st @ js ''[INFO] '' @ join (js '' '') (map as_string args)
           @ [newline]\<rparr>"

text \<open>
  A call \<^verbatim>\<open>console.m(args)\<close> of the script, by the name of the method. A name that the
  object does not have is not a function: the call is a TypeError in the script and
  reaches no variable.
\<close>

type_synonym console_call = "string \<times> ConsoleArg list"

fun console_call :: "console_call \<Rightarrow> ExecutionState \<Rightarrow> ExecutionState" where
  "console_call (m, args) st =
     (case console_method m of None \<Rightarrow> st | Some ch \<Rightarrow> sandboxConsole ch args st)"

fun run_calls :: "console_call list \<Rightarrow> ExecutionState \<Rightarrow> ExecutionState" where
  "run_calls [] st = st"
| "run_calls (call # calls) st = run_calls calls (console_call call st)"

section \<open>The evaluated script\<close>

text \<open>
  The code text is compiled by \<^verbatim>\<open>new Function\<close> and run by the JavaScript engine; the
  built-in objects that the executor calls (\<^verbatim>\<open>Function\<close>, \<^verbatim>\<open>Promise\<close>, \<^verbatim>\<open>setTimeout\<close>,
  \<^verbatim>\<open>Error\<close>) are the engine's own. The executor sees of the code: whether it compiles,
  the console calls it makes, and how the call of the compiled function ends.

  The code is spliced into the \<^verbatim>\<open>try\<close> block of the template. It can reach the end of
  that block (\<open>Completes\<close>), throw inside it (\<open>Throws\<close>), return a value of its own
  (\<open>Returns\<close>), close the block and throw outside of it (\<open>Escapes\<close>), or never finish
  (\<open>Loops\<close>).

  A returned value is a value that is not a promise, or a promise (or thenable). A
  promise comes with the console calls that its callbacks make and with its settlement,
  each at a time in milliseconds counted from the start of the race. The source text
  \<^verbatim>\<open>return new Promise(() => {})\<close> is \<open>Runs [] (Returns (Promise [] Never))\<close>, and
  \<^verbatim>\<open>return 5\<close> is \<open>Runs [] (Returns (Plain (object_with Undefined Undefined)))\<close>.
\<close>

datatype settlement = Fulfils nat result_value | Rejects nat thrown | Never

datatype returned = Plain result_value | Promise "(nat \<times> console_call) list" settlement

datatype outcome = Completes | Throws thrown | Returns returned | Escapes thrown | Loops

datatype script = SyntaxError jsstring | Runs "console_call list" outcome

text \<open>
  The function built from the template: the code in a \<^verbatim>\<open>try\<close> block followed by
  \<^verbatim>\<open>return { success: true, error: '' }\<close>, and a handler returning
  \<^verbatim>\<open>{ success: false, error: error.message || String(error) }\<close>. \<open>None\<close>: the call does
  not return. \<open>Inl\<close>: the call throws.
\<close>

fun safeExecute :: "outcome \<Rightarrow> (thrown + returned) option" where
  "safeExecute Completes = Some (Inr (Plain (object_with (Boolean True) (Str []))))"
| "safeExecute (Throws e) =
     (case message e of
        Raises y \<Rightarrow> Some (Inl y)
      | Gives m \<Rightarrow>
          if truthy m then Some (Inr (Plain (object_with (Boolean False) m)))
          else (case to_String e of
                  Raises y \<Rightarrow> Some (Inl y)
                | Gives s \<Rightarrow> Some (Inr (Plain (object_with (Boolean False) (Str s))))))"
| "safeExecute (Returns v) = Some (Inr v)"
| "safeExecute (Escapes e) = Some (Inl e)"
| "safeExecute Loops = None"

section \<open>The bounded executor\<close>

text \<open>The decimal text of a number, for the whole numbers that are passed as timeout.\<close>

fun number_text :: "nat \<Rightarrow> jsstring" where
  "number_text n = (if n < 10 then [48 + n] else number_text (n div 10) @ [48 + n mod 10])"

declare number_text.simps [simp del]

definition timeout_error :: "nat \<Rightarrow> thrown" where
  "timeout_error timeout =
     Error_object ''Error'' (js ''Execution timeout after '' @ number_text timeout @ js ''ms'')"

text \<open>The console calls that callbacks of the script make up to a time, in their order.\<close>

definition calls_until :: "nat \<Rightarrow> (nat \<times> console_call) list \<Rightarrow> console_call list" where
  "calls_until d later = map snd (filter (\<lambda>(due, call). due \<le> d) later)"

text \<open>
  \<^verbatim>\<open>await Promise.race([Promise.resolve(v), timer])\<close>, the timer armed with
  \<^verbatim>\<open>setTimeout(_, timeout * 1000)\<close>. A value that is not a promise is already settled
  when the race starts, and the timer, a later task, cannot come first. A promise is
  raced against the timer: it wins when it settles no later than \<open>timeout * 1000\<close>
  milliseconds (of two events due at the same millisecond the script's, scheduled
  first, comes first); otherwise the timer rejects. The delay is taken to be within
  the range of the timer (below \<open>2^31\<close> milliseconds). \<open>Inl\<close>: the \<^verbatim>\<open>await\<close> throws.
\<close>

fun race :: "returned \<Rightarrow> nat \<Rightarrow> ExecutionState \<Rightarrow> (thrown + result_value) \<times> ExecutionState" where
  "race (Plain v) timeout st = (Inr v, st)"
| "race (Promise later (Fulfils due v)) timeout st =
     (if due \<le> timeout * 1000 then (Inr v, run_calls (calls_until due later) st)
      else (Inl (timeout_error timeout), run_calls (calls_until (timeout * 1000) later) st))"
| "race (Promise later (Rejects due e)) timeout st =
     (if due \<le> timeout * 1000 then (Inl e, run_calls (calls_until due later) st)
      else (Inl (timeout_error timeout), run_calls (calls_until (timeout * 1000) later) st))"
| "race (Promise later Never) timeout st =
     (Inl (timeout_error timeout), run_calls (calls_until (timeout * 1000) later) st)"

text \<open>
  The statements after the race: \<^verbatim>\<open>success = result.success\<close>, and, if
  \<^verbatim>\<open>!result.success\<close>, \<^verbatim>\<open>error = result.error\<close> and \<^verbatim>\<open>exitCode = 1\<close>.
\<close>

fun read_result :: "result_value \<Rightarrow> ExecutionState \<Rightarrow> thrown + ExecutionState" where
  "read_result (Result first second err) st =
     (case first of
        Raises y \<Rightarrow> Inl y
      | Gives s \<Rightarrow>
          (case second of
             Raises y \<Rightarrow> Inl y
           | Gives s' \<Rightarrow>
               if \<not> truthy s' then
                 (case err of
                    Raises y \<Rightarrow> Inl y
                  | Gives e \<Rightarrow> Inr (st\<lparr>success := s, error := e, exitCode := 1\<rparr>))
               else Inr (st\<lparr>success := s\<rparr>)))"

text \<open>
  The \<^verbatim>\<open>try\<close> block. \<open>None\<close>: it does not finish. \<open>Inl\<close>: it throws, with the variables
  as the console calls have left them.
\<close>

fun try_block :: "script \<Rightarrow> nat \<Rightarrow> ExecutionState \<Rightarrow> (thrown \<times> ExecutionState + ExecutionState) option" where
  "try_block (SyntaxError m) timeout st = Some (Inl (Error_object ''SyntaxError'' m, st))"
| "try_block (Runs calls oc) timeout st =
     (let st1 = run_calls calls st
      in case safeExecute oc of
           None \<Rightarrow> None
         | Some (Inl e) \<Rightarrow> Some (Inl (e, st1))
         | Some (Inr v) \<Rightarrow>
             (case race v timeout st1 of
                (Inl e, st2) \<Rightarrow> Some (Inl (e, st2))
              | (Inr r, st2) \<Rightarrow>
                  (case read_result r st2 of
                     Inl e \<Rightarrow> Some (Inl (e, st2))
                   | Inr st3 \<Rightarrow> Some (Inr st3))))"

text \<open>
  \<^verbatim>\<open>err instanceof Error ? err.message : 'Execution failed'\<close>, the expression of the
  \<^verbatim>\<open>catch\<close> handlers. \<open>Inl\<close>: evaluating it throws.
\<close>

definition caught_message :: "thrown \<Rightarrow> thrown + jsvalue" where
  "caught_message err =
     (case is_Error err of
        Raises y \<Rightarrow> Inl y
      | Gives b \<Rightarrow>
          if b then (case message err of Raises y \<Rightarrow> Inl y | Gives m \<Rightarrow> Inr m)
          else Inr (Str (js ''Execution failed'')))"

definition initial_state :: ExecutionState where
  "initial_state = \<lparr>success = Boolean False, output' = [], error = Str [], exitCode = 0\<rparr>"

text \<open>
  \<open>None\<close>: the promise of \<^verbatim>\<open>executeJavaScript\<close> never settles. \<open>Inl\<close>: it rejects, the
  \<^verbatim>\<open>catch\<close> handler having thrown. \<open>Inr\<close>: it fulfils with the four variables.
\<close>

definition executeJavaScript :: "script \<Rightarrow> nat \<Rightarrow> (thrown + ExecutionState) option" where
  "executeJavaScript code timeout =
     (case try_block code timeout initial_state of
        None \<Rightarrow> None
      | Some (Inr st) \<Rightarrow> Some (Inr st)
      | Some (Inl (err, st)) \<Rightarrow>
          (case caught_message err of
             Inl y \<Rightarrow> Some (Inl y)
           | Inr m \<Rightarrow> Some (Inr (st\<lparr>success := Boolean False, error := m, exitCode := 1\<rparr>))))"

section \<open>Notions used to state properties of the executor\<close>

text \<open>
  The text that a sequence of console calls leaves in the output: a line for each call
  of \<^verbatim>\<open>log\<close>, \<^verbatim>\<open>warn\<close> and \<^verbatim>\<open>info\<close>, nothing for a call of any other name. A line is the
  arguments joined by a space and ended by a newline; \<^verbatim>\<open>log\<close> writes an object as its JSON
  text, \<^verbatim>\<open>warn\<close> and \<^verbatim>\<open>info\<close> write every argument as \<^verbatim>\<open>String\<close> gives it, after their tag.
\<close>

fun console_output_text :: "console_call list \<Rightarrow> jsstring" where
  "console_output_text [] = []"
| "console_output_text ((m, args) # calls) =
     (if m = ''log'' then
        join (js '' '') (map (\<lambda>arg. if is_object arg then as_json arg else as_string arg) args)
          @ [newline]
      else if m = ''warn'' then js ''[WARN] '' @ join (js '' '') (map as_string args) @ [newline]
      else if m = ''info'' then js ''[INFO] '' @ join (js '' '') (map as_string args) @ [newline]
      else [])
       @ console_output_text calls"

text \<open>The text that the calls of \<^verbatim>\<open>error\<close> among a sequence of console calls write.\<close>

fun console_error_text :: "console_call list \<Rightarrow> jsstring" where
  "console_error_text [] = []"
| "console_error_text ((m, args) # calls) =
     (if m = ''error'' then join (js '' '') (map as_string args) @ [newline] else [])
       @ console_error_text calls"

text \<open>
  A thrown value that can be inspected, and a returned value that can be read, without a
  throw; a script all of whose values are such.
\<close>

fun inspectable :: "thrown \<Rightarrow> bool" where
  "inspectable (Thrown (Gives b) (Gives m) (Gives s)) = True"
| "inspectable e = False"

fun readable :: "result_value \<Rightarrow> bool" where
  "readable (Result (Gives s) (Gives s') (Gives e)) = True"
| "readable v = False"




section \<open>The request handler\<close>

text \<open>
  \<^verbatim>\<open>handleExecute\<close> reads \<^verbatim>\<open>code\<close>, \<^verbatim>\<open>language\<close> and \<^verbatim>\<open>timeout\<close> from the JSON body; a
  property that is absent is \<open>None\<close>. \<open>Malformed\<close>: reading the body throws.
\<close>

record ExecutePayload =
  code :: "jsstring option"
  language :: "jsstring option"
  timeout :: "nat option"

datatype request_body = Malformed thrown | Payload ExecutePayload

record Request =
  request_method :: string
  request_body :: request_body

text \<open>
  The JSON of a response: \<^verbatim>\<open>{error, message}\<close> for a wrong method, and otherwise
  \<^verbatim>\<open>success\<close>, \<^verbatim>\<open>output\<close>, \<^verbatim>\<open>error\<close>, \<^verbatim>\<open>exit_code\<close>, with \<^verbatim>\<open>execution_time\<close> and
  \<^verbatim>\<open>security_report\<close> where the handler writes them.
\<close>

record ExecuteResponse =
  r_success :: jsvalue
  r_output :: jsstring
  r_error :: jsvalue
  exit_code :: nat
  execution_time :: "rat option"
  security_report :: "SecurityReport option"

datatype response_body = Message jsstring jsstring | Outcome ExecuteResponse

record Response =
  status :: nat
  body :: response_body

definition invalid_request :: "jsstring \<Rightarrow> Response" where
  "invalid_request msg =
     \<lparr>status = 400,
      body = Outcome \<lparr>r_success = Boolean False, r_output = [], r_error = Str msg, exit_code = 1,
                      execution_time = None, security_report = None\<rparr>\<rparr>"

text \<open>\<^verbatim>\<open>(Date.now() - startTime) / 1000\<close>, for two readings of the clock in milliseconds.\<close>

definition elapsed_seconds :: "nat \<Rightarrow> nat \<Rightarrow> rat" where
  "elapsed_seconds startTime now = (of_nat now - of_nat startTime) / 1000"

text \<open>\<^verbatim>\<open>language && language !== 'javascript'\<close>, with the message of the refusal.\<close>

fun language_refusal :: "jsstring option \<Rightarrow> jsstring option" where
  "language_refusal None = None"
| "language_refusal (Some l) =
     (if l \<noteq> [] \<and> l \<noteq> js ''javascript'' then
        Some (js ''Language '' @ [39] @ l @ [39]
                @ js '' not supported in Cloudflare Workers. Only JavaScript is supported.'')
      else None)"

text \<open>\<^verbatim>\<open>timeout || parseInt(env.MAX_EXECUTION_TIME || '10')\<close>, the second operand already a number.\<close>

fun effective_timeout :: "nat option \<Rightarrow> nat \<Rightarrow> nat" where
  "effective_timeout None max_execution_time = max_execution_time"
| "effective_timeout (Some t) max_execution_time = (if t = 0 then max_execution_time else t)"

text \<open>
  \<open>engine\<close> is the JavaScript engine: what a code text does when compiled and run.
  \<open>max_execution_time\<close> is the number \<^verbatim>\<open>parseInt(env.MAX_EXECUTION_TIME || '10')\<close>.
  \<open>startTime\<close> is the clock at entry and \<open>now\<close> the clock when the response is
  built. The optional write to the database has no part in the response (its failure is
  caught and logged) and is left out. \<open>None\<close>: the handler does not return.
  \<open>Inl\<close>: it throws, its own \<^verbatim>\<open>catch\<close> handler having thrown.
\<close>

definition blocked_response :: "SecurityReport \<Rightarrow> nat \<Rightarrow> nat \<Rightarrow> Response" where
  "blocked_response securityReport startTime now =
     \<lparr>status = 400,
      body = Outcome
        \<lparr>r_success = Boolean False, r_output = [],
         r_error = Str (js ''Code blocked by security policy''),
         exit_code = 1, execution_time = Some (elapsed_seconds startTime now),
         security_report = Some securityReport\<rparr>\<rparr>"

definition executed_response :: "ExecutionState \<Rightarrow> SecurityReport \<Rightarrow> nat \<Rightarrow> nat \<Rightarrow> Response" where
  "executed_response result securityReport startTime now =
     \<lparr>status = 200,
      body = Outcome
        \<lparr>r_success = success result, r_output = output' result, r_error = error result,
         exit_code = exitCode result, execution_time = Some (elapsed_seconds startTime now),
         security_report =
           Some \<lparr>allowed = True, violations = violations securityReport,
                 complexityScore = complexityScore securityReport\<rparr>\<rparr>\<rparr>"

text \<open>
  The response of the \<^verbatim>\<open>catch\<close> handler of \<^verbatim>\<open>handleExecute\<close>. \<open>Inl\<close>: the handler throws
  while it inspects what it caught.
\<close>

definition failed_response :: "thrown \<Rightarrow> nat \<Rightarrow> nat \<Rightarrow> thrown + Response" where
  "failed_response err startTime now =
     (case caught_message err of
        Inl y \<Rightarrow> Inl y
      | Inr m \<Rightarrow>
          Inr \<lparr>status = 500,
               body = Outcome
                 \<lparr>r_success = Boolean False, r_output = [], r_error = m, exit_code = 1,
                  execution_time = Some (elapsed_seconds startTime now),
                  security_report =
                    Some \<lparr>allowed = False, violations = [], complexityScore = 0\<rparr>\<rparr>\<rparr>)"

definition analyze_and_run ::
  "(jsstring \<Rightarrow> script) \<Rightarrow> nat \<Rightarrow> jsstring \<Rightarrow> nat option \<Rightarrow> nat \<Rightarrow> nat
     \<Rightarrow> (thrown + Response) option" where
  "analyze_and_run engine max_execution_time c t startTime now =
     (let securityReport = analyzeSecurity c
      in if \<not> allowed securityReport then
           Some (Inr (blocked_response securityReport startTime now))
         else (case executeJavaScript (engine c) (effective_timeout t max_execution_time) of
                 None \<Rightarrow> None
               | Some (Inl err) \<Rightarrow> Some (failed_response err startTime now)
               | Some (Inr result) \<Rightarrow>
                   Some (Inr (executed_response result securityReport startTime now))))"

definition handleExecute ::
  "(jsstring \<Rightarrow> script) \<Rightarrow> nat \<Rightarrow> Request \<Rightarrow> nat \<Rightarrow> nat \<Rightarrow> (thrown + Response) option" where
  "handleExecute engine max_execution_time request startTime now =
     (if request_method request \<noteq> ''POST'' then
        Some (Inr \<lparr>status = 405,
              body = Message (js ''Method Not Allowed'')
                       (js ''POST method required for /execute'')\<rparr>)
      else (case request_body request of
              Malformed err \<Rightarrow> Some (failed_response err startTime now)
            | Payload p \<Rightarrow>
                (case code p of
                   None \<Rightarrow> Some (Inr (invalid_request (js ''Code is required'')))
                 | Some c \<Rightarrow>
                     if c = [] then Some (Inr (invalid_request (js ''Code is required'')))
                     else (case language_refusal (language p) of
                             Some msg \<Rightarrow> Some (Inr (invalid_request msg))
                           | None \<Rightarrow>
                               analyze_and_run engine max_execution_time c (timeout p)
                                 startTime now))))"

section \<open>Properties of the security analysis\<close>

lemmas analysis_defs = analyzeSecurity_def js_def scan_def scan_line_def dangerousPatterns_def
  rule_def lit_def test_def match_alternatives_def unit_matches_def canonicalize_def
  is_space_def newline_def

lemma split_lines_not_Nil: "split_lines s \<noteq> []"
  by (induction s) (auto simp: Let_def)

lemma length_split_lines: "1 \<le> length (split_lines s)"
  using split_lines_not_Nil [of s] by (cases "split_lines s") auto

lemma split_lines_no_newline: "newline \<notin> set t \<Longrightarrow> split_lines t = [t]"
  by (induction t) (auto simp: Let_def)

lemma split_lines_append:
  "split_lines (s @ newline # t) = split_lines s @ split_lines t"
  by (induction s) (auto simp: Let_def split_lines_not_Nil)

lemma prefix_hd_split_lines:
  "prefix w s \<Longrightarrow> newline \<notin> set w \<Longrightarrow> prefix w (hd (split_lines s))"
proof (induction s arbitrary: w)
  case Nil
  then show ?case by simp
next
  case (Cons c s)
  show ?case
  proof (cases w)
    case Nil
    then show ?thesis by simp
  next
    case (Cons d w')
    with Cons.prems have "d = c" "c \<noteq> newline" "prefix w' s" "newline \<notin> set w'"
      by auto
    with Cons.IH [of w'] Cons show ?thesis
      by (simp add: Let_def)
  qed
qed

lemma sublist_in_some_line:
  "sublist w s \<Longrightarrow> newline \<notin> set w \<Longrightarrow> \<exists>l\<in>set (split_lines s). sublist w l"
proof (induction s)
  case Nil
  then show ?case by simp
next
  case (Cons c s)
  let ?rest = "split_lines s"
  have ne: "?rest \<noteq> []" by (rule split_lines_not_Nil)
  from Cons.prems(1) consider "prefix w (c # s)" | "sublist w s"
    by (auto simp: sublist_Cons_right)
  then show ?case
  proof cases
    case 1
    then have "prefix w (hd (split_lines (c # s)))"
      using Cons.prems(2) by (rule prefix_hd_split_lines)
    moreover have "hd (split_lines (c # s)) \<in> set (split_lines (c # s))"
      using split_lines_not_Nil by (rule hd_in_set)
    ultimately show ?thesis
      using prefix_imp_sublist by blast
  next
    case 2
    with Cons.IH Cons.prems(2) obtain l where l: "l \<in> set ?rest" "sublist w l"
      by blast
    show ?thesis
    proof (cases "c = newline")
      case True
      with l show ?thesis by (auto simp: Let_def)
    next
      case False
      from l(1) ne have "l = hd ?rest \<or> l \<in> set (tl ?rest)"
        by (cases ?rest) auto
      then show ?thesis
      proof
        assume "l = hd ?rest"
        with l(2) have "sublist w (c # hd ?rest)"
          by (simp add: sublist_Cons_right)
        with False show ?thesis by (auto simp: Let_def)
      next
        assume "l \<in> set (tl ?rest)"
        with l(2) False show ?thesis by (auto simp: Let_def)
      qed
    qed
  qed
qed

lemma match_here_literal:
  "SpacePlus \<notin> set r \<Longrightarrow> list_all2 (unit_matches ic) (literal_of r) w \<Longrightarrow>
     match_here ic r (w @ v)"
proof (induction r arbitrary: w)
  case Nil
  then show ?case by simp
next
  case (Cons a r)
  show ?case
  proof (cases a)
    case (Lit p)
    with Cons.prems obtain c w' where "w = c # w'" "unit_matches ic p c"
      "list_all2 (unit_matches ic) (literal_of r) w'"
      by (auto simp: list_all2_Cons1)
    with Cons.IH [of w'] Cons.prems(1) Lit show ?thesis by simp
  next
    case SpaceStar
    with Cons.prems Cons.IH [of w] have "match_here ic r (w @ v)" by simp
    with SpaceStar show ?thesis by (cases "w @ v") auto
  next
    case SpacePlus
    with Cons.prems show ?thesis by simp
  qed
qed

lemma search_append: "match_alternatives re v \<Longrightarrow> search re (u @ v)"
proof (induction u)
  case Nil
  then show ?case by (cases v) auto
next
  case (Cons c u)
  then show ?case by simp
qed

lemma test_sublist:
  assumes "sublist w l" and "\<And>v. match_alternatives re (w @ v)"
  shows "test re l"
proof -
  from assms(1) obtain ps ss where "l = ps @ w @ ss" by (auto simp: sublist_def)
  with assms(2) [of ss] show ?thesis by (simp add: test_def search_append)
qed

lemma scan_hit:
  assumes "l \<in> set ls" and "p \<in> set dangerousPatterns" and "test (rule_pattern p) l"
  shows "\<exists>v\<in>set (scan ls). pattern v = name p \<and> severity v = rule_severity p"
proof -
  from assms(1) obtain i where i: "i < length ls" "ls ! i = l"
    by (auto simp: in_set_conv_nth)
  then have "(i, l) \<in> set (enumerate 0 ls)"
    by (auto simp: in_set_enumerate_eq)
  moreover from assms(2,3)
  have "\<lparr>line = i + 1, pattern = name p, description = rule_description p,
          severity = rule_severity p\<rparr> \<in> set (scan_line (i + 1) l)"
    by (auto simp: scan_line_def)
  ultimately show ?thesis
    unfolding scan_def by force
qed

lemma violations_analyze [simp]: "violations (analyzeSecurity src) = scan (split_lines src)"
  by (simp add: analyzeSecurity_def Let_def)

lemma high_violation_blocks:
  "\<exists>v\<in>set (violations (analyzeSecurity src)). severity v = High \<Longrightarrow>
     \<not> allowed (analyzeSecurity src)"
  by (auto simp: analyzeSecurity_def Let_def list_ex_iff)

lemma canonicalize_newline: "canonicalize c = newline \<longleftrightarrow> c = newline"
  by (auto simp: canonicalize_def newline_def)

lemma map_eq_appendE:
  assumes "map f s = a @ b"
  obtains us vs where "s = us @ vs" "map f us = a" "map f vs = b"
proof -
  from assms have "\<exists>us vs. s = us @ vs \<and> a = map f us \<and> b = map f vs"
    by (simp only: map_eq_append_conv)
  then show thesis using that by blast
qed

lemma occurs_unfold:
  assumes "occurs ic w s"
  obtains w' where "sublist w' s" "list_all2 (unit_matches ic) w w'"
proof (cases ic)
  case False
  with assms have "sublist w s" by (simp add: occurs_def)
  moreover have "list_all2 (unit_matches ic) w w"
    using False by (simp add: list_all2_same unit_matches_def)
  ultimately show ?thesis by (rule that)
next
  case True
  with assms obtain ps ss where "map canonicalize s = ps @ map canonicalize w @ ss"
    by (auto simp: occurs_def sublist_def)
  then obtain ps' vs where vs: "s = ps' @ vs" "map canonicalize vs = map canonicalize w @ ss"
    by (rule map_eq_appendE)
  from vs(2) obtain w' ss' where "vs = w' @ ss'" and w': "map canonicalize w' = map canonicalize w"
    by (rule map_eq_appendE)
  with vs(1) have s: "s = ps' @ w' @ ss'" by simp
  from w' have "list_all2 (unit_matches ic) w w'"
    using True
    by (induction w arbitrary: w') (auto simp: unit_matches_def)
  moreover from s have "sublist w' s" by (auto simp: sublist_def)
  ultimately show ?thesis using that by blast
qed

lemma unit_matches_newline: "unit_matches ic p c \<Longrightarrow> c = newline \<Longrightarrow> p = newline"
  by (auto simp: unit_matches_def canonicalize_newline split: if_splits) (metis canonicalize_newline)

lemma rule_literal_hit:
  assumes p: "p \<in> set dangerousPatterns"
    and r: "r \<in> set (alternatives (rule_pattern p))" "SpacePlus \<notin> set r"
    and nl: "newline \<notin> set (literal_of r)"
    and occ: "occurs (ignoreCase (rule_pattern p)) (literal_of r) src"
  shows "\<exists>v\<in>set (violations (analyzeSecurity src)).
           pattern v = name p \<and> severity v = rule_severity p"
proof -
  let ?ic = "ignoreCase (rule_pattern p)"
  from occ obtain w' where w': "sublist w' src" "list_all2 (unit_matches ?ic) (literal_of r) w'"
    by (rule occurs_unfold)
  have "newline \<notin> set w'"
  proof
    assume "newline \<in> set w'"
    then obtain i where "i < length w'" "w' ! i = newline"
      by (auto simp: in_set_conv_nth)
    with w'(2) have "literal_of r ! i = newline" "i < length (literal_of r)"
      by (auto simp: list_all2_conv_all_nth dest: unit_matches_newline)
    with nl show False by (metis nth_mem)
  qed
  with w'(1) obtain l where l: "l \<in> set (split_lines src)" "sublist w' l"
    using sublist_in_some_line by blast
  have "match_alternatives (rule_pattern p) (w' @ v)" for v
    using r w'(2) by (auto simp: match_alternatives_def list_ex_iff intro: match_here_literal)
  with l(2) have "test (rule_pattern p) l" by (rule test_sublist)
  with l(1) p show ?thesis by (simp add: scan_hit)
qed


lemma high_rule_hit:
  assumes "rule [r] ic n d High \<in> set dangerousPatterns"
    and "SpacePlus \<notin> set r" and "newline \<notin> set (literal_of r)"
    and "occurs ic (literal_of r) src"
  shows "\<exists>v\<in>set (violations (analyzeSecurity src)). pattern v = js n \<and> severity v = High"
  using rule_literal_hit [of "rule [r] ic n d High" r src] assms
  by (simp add: rule_def)

text \<open>
  Claim C2, as the code has it. The rules for \<^verbatim>\<open>eval(\<close>, \<^verbatim>\<open>Function(\<close>, \<^verbatim>\<open>fetch(\<close> and
  \<^verbatim>\<open>process.\<close> have no flag \<^verbatim>\<open>i\<close>, those for \<^verbatim>\<open>while(true)\<close> and \<^verbatim>\<open>for(;;)\<close> have it.
  For every source that contains \<^verbatim>\<open>eval(\<close>, \<^verbatim>\<open>Function(\<close>, \<^verbatim>\<open>fetch(\<close> or \<^verbatim>\<open>process.\<close> in
  exactly this case, or \<^verbatim>\<open>while(true)\<close> or \<^verbatim>\<open>for(;;)\<close> in any case of the letters, the
  analysis returns a report that is not allowed and that holds a violation named after
  the rule, of severity high.
\<close>

theorem high_literal_blocks:
  assumes "(ic, w, n) \<in> {(False, ''eval('', ''eval()''), (False, ''Function('', ''Function()''),
       (False, ''fetch('', ''fetch()''), (False, ''process.'', ''process object''),
       (True, ''while(true)'', ''infinite loop''), (True, ''for(;;)'', ''infinite loop'')}"
    and "occurs ic (js w) src"
  shows "\<not> allowed (analyzeSecurity src) \<and>
     (\<exists>v\<in>set (violations (analyzeSecurity src)). pattern v = js n \<and> severity v = High)"
proof -
  let ?hit = "\<exists>v\<in>set (violations (analyzeSecurity src)). pattern v = js n \<and> severity v = High"
  from assms(1) consider
      (c_eval) "ic = False" "w = ''eval(''" "n = ''eval()''"
    | (c_Function) "ic = False" "w = ''Function(''" "n = ''Function()''"
    | (c_fetch) "ic = False" "w = ''fetch(''" "n = ''fetch()''"
    | (c_process) "ic = False" "w = ''process.''" "n = ''process object''"
    | (c_while) "ic = True" "w = ''while(true)''" "n = ''infinite loop''"
    | (c_for) "ic = True" "w = ''for(;;)''" "n = ''infinite loop''"
    by (elim insertE emptyE; simp only: prod.inject; blast)
  then have v: ?hit
  proof cases
    case c_eval
    with assms(2) show ?thesis
      using high_rule_hit [of "lit ''eval'' @ [SpaceStar] @ lit ''(''" False "''eval()''"
          "''Dynamic code execution''" src]
      by (simp add: dangerousPatterns_def lit_def js_def newline_def)
  next
    case c_Function
    with assms(2) show ?thesis
      using high_rule_hit [of "lit ''Function'' @ [SpaceStar] @ lit ''(''" False "''Function()''"
          "''Dynamic function creation''" src]
      by (simp add: dangerousPatterns_def lit_def js_def newline_def)
  next
    case c_fetch
    with assms(2) show ?thesis
      using high_rule_hit [of "lit ''fetch'' @ [SpaceStar] @ lit ''(''" False "''fetch()''"
          "''Network requests''" src]
      by (simp add: dangerousPatterns_def lit_def js_def newline_def)
  next
    case c_process
    with assms(2) show ?thesis
      using high_rule_hit [of "lit ''process.''" False "''process object''"
          "''Process access''" src]
      by (simp add: dangerousPatterns_def lit_def js_def newline_def)
  next
    case c_while
    with assms(2) show ?thesis
      using high_rule_hit [of "lit ''while'' @ [SpaceStar] @ lit ''('' @ [SpaceStar] @ lit ''true''
          @ [SpaceStar] @ lit '')''" True "''infinite loop''" "''Potential infinite loop''" src]
      by (simp add: dangerousPatterns_def lit_def js_def newline_def)
  next
    case c_for
    with assms(2) show ?thesis
      using high_rule_hit [of "lit ''for'' @ [SpaceStar] @ lit ''('' @ [SpaceStar] @ lit '';;''
          @ [SpaceStar] @ lit '')''" True "''infinite loop''" "''Potential infinite loop''" src]
      by (simp add: dangerousPatterns_def lit_def js_def newline_def)
  qed
  then have "\<not> allowed (analyzeSecurity src)"
    by (intro high_violation_blocks) blast
  with v show ?thesis by simp
qed

text \<open>
  The theorem at the source \<^verbatim>\<open>x; While(TRUE){}\<close>.
\<close>

theorem high_literal_blocks_witness:
  "(True, ''while(true)'', ''infinite loop'') \<in> {(False, ''eval('', ''eval()''), (False, ''Function('', ''Function()''),
       (False, ''fetch('', ''fetch()''), (False, ''process.'', ''process object''),
       (True, ''while(true)'', ''infinite loop''), (True, ''for(;;)'', ''infinite loop'')}
   \<and> occurs True (js ''while(true)'') (js ''x; While(TRUE){}'')
   \<and> \<not> allowed (analyzeSecurity (js ''x; While(TRUE){}'')) \<and>
     (\<exists>v\<in>set (violations (analyzeSecurity (js ''x; While(TRUE){}''))). pattern v = js ''infinite loop'' \<and> severity v = High)"
proof -
  have occ: "occurs True (js ''while(true)'') (js ''x; While(TRUE){}'')"
    by (simp add: occurs_def js_def canonicalize_def sublist_Cons_right)
  with high_literal_blocks [of True "''while(true)''" "''infinite loop''" "js ''x; While(TRUE){}''"]
  show ?thesis by simp
qed

text \<open>
  Claim C2 as stated fails: \<^verbatim>\<open>f=function(){}\<close> contains \<^verbatim>\<open>Function(\<close> up to case and is
  allowed.
\<close>

theorem case_insensitive_Function_counterexample:
  "occurs True (js ''Function('') (js ''f=function(){}'') \<and> allowed (analyzeSecurity (js ''f=function(){}''))"
  by (simp add: occurs_def analysis_defs sublist_Cons_right)

text \<open>
  Claim C9. When the analysis blocks a source \<open>s\<close>, and \<open>t\<close> is a single line (it holds
  no newline) that a rule of severity high matches, then the analysis blocks \<open>s\<close>
  extended by a newline and \<open>t\<close>.
\<close>

theorem append_high_line_stays_blocked:
  assumes "\<not> allowed (analyzeSecurity s)" and "newline \<notin> set t"
    and "\<exists>p\<in>set dangerousPatterns. rule_severity p = High \<and> test (rule_pattern p) t"
  shows "\<not> allowed (analyzeSecurity (s @ newline # t))"
proof -
  from assms(3) obtain p where p: "p \<in> set dangerousPatterns" "rule_severity p = High"
    "test (rule_pattern p) t" by blast
  from assms(2) have "t \<in> set (split_lines (s @ newline # t))"
    by (simp add: split_lines_append split_lines_no_newline)
  with p(1,3) have "\<exists>v\<in>set (scan (split_lines (s @ newline # t))).
      pattern v = name p \<and> severity v = rule_severity p"
    by (intro scan_hit)
  with p(2) show ?thesis
    by (intro high_violation_blocks) auto
qed

text \<open>
  The theorem at \<^verbatim>\<open>eval(1)\<close> extended with the line \<^verbatim>\<open>fetch(u)\<close>.
\<close>

theorem append_high_line_stays_blocked_witness:
  "\<not> allowed (analyzeSecurity (js ''eval(1)'')) \<and> newline \<notin> set (js ''fetch(u)'')
   \<and> (\<exists>p\<in>set dangerousPatterns. rule_severity p = High \<and> test (rule_pattern p) (js ''fetch(u)''))
   \<and> \<not> allowed (analyzeSecurity (js ''eval(1)'' @ newline # js ''fetch(u)''))"
proof -
  have a: "\<not> allowed (analyzeSecurity (js ''eval(1)''))"
    by (simp add: analysis_defs)
  have b: "newline \<notin> set (js ''fetch(u)'')"
    by (simp add: js_def newline_def)
  have c: "\<exists>p\<in>set dangerousPatterns. rule_severity p = High \<and> test (rule_pattern p) (js ''fetch(u)'')"
    by (simp add: analysis_defs)
  from append_high_line_stays_blocked [OF a b c] a b c show ?thesis by simp
qed


text \<open>
  Claim C1. For every source, the report is not allowed exactly when some violation of
  the report has severity high or the report has more than five violations.
\<close>

theorem analyze_allowed_iff:
  "(\<not> allowed (analyzeSecurity src)) \<longleftrightarrow>
     ((\<exists>v \<in> set (violations (analyzeSecurity src)). severity v = High)
      \<or> length (violations (analyzeSecurity src)) > 5)"
  by (auto simp: analyzeSecurity_def Let_def list_ex_iff)

lemma six_medium_lines_severities:
  "map severity (violations (analyzeSecurity six_medium_lines)) = [Medium, Medium, Medium, Medium, Medium, Medium]"
  by (simp add: six_medium_lines_def analysis_defs)

text \<open>
  The theorem at a source of six lines with one violation of severity medium each: six
  violations, none of severity high, and the report is not allowed.
\<close>

theorem analyze_allowed_iff_witness:
  "map severity (violations (analyzeSecurity six_medium_lines))
     = [Medium, Medium, Medium, Medium, Medium, Medium]
   \<and> \<not> allowed (analyzeSecurity six_medium_lines)"
proof -
  let ?vs = "violations (analyzeSecurity six_medium_lines)"
  note sev = six_medium_lines_severities
  have len: "length ?vs = 6"
    using arg_cong [OF sev, of length] by (simp del: violations_analyze)
  from analyze_allowed_iff [of six_medium_lines] len
  have "\<not> allowed (analyzeSecurity six_medium_lines)" by simp
  with sev show ?thesis by simp
qed

lemma analyzeSecurity_Nil:
  "analyzeSecurity [] = \<lparr>allowed = True, violations = [], complexityScore = 1 / 10\<rparr>"
  by (simp add: analysis_defs enumerate_eq_zip)

text \<open>
  Claim C3 as stated fails: the score of the empty source is not 0.
\<close>

theorem empty_source_score_counterexample:
  "\<not> (allowed (analyzeSecurity []) \<and> violations (analyzeSecurity []) = []
       \<and> complexityScore (analyzeSecurity []) = 0)"
  by (simp add: analyzeSecurity_Nil)

text \<open>
  Claim C3, as the code has it. The empty source splits into one empty line. Its report
  is allowed, has no violation, and has the score one tenth (one line, divided by 10).
\<close>

theorem empty_source_report:
  "allowed (analyzeSecurity []) \<and> violations (analyzeSecurity []) = []
     \<and> complexityScore (analyzeSecurity []) = 1 / 10"
  by (simp add: analyzeSecurity_Nil)

text \<open>
  Claim C4 as stated fails: the score of the empty source is not an integer.
\<close>

theorem score_not_integer_counterexample:
  "complexityScore (analyzeSecurity []) \<notin> \<int>"
  by (simp add: analyzeSecurity_Nil)

text \<open>
  Claim C4, as the code has it. For every source the score is the smaller of 100 and the
  sum of 10 for each violation, a tenth for each line, 5 for each occurrence of
  \<^verbatim>\<open>function\<close> and 3 for each occurrence of \<^verbatim>\<open>class\<close> in the text. It is not rounded; it
  lies between one tenth and 100.
\<close>

theorem complexity_score_value:
  "complexityScore (analyzeSecurity src) =
     min (of_nat (length (violations (analyzeSecurity src))) * 10
            + of_nat (length (split_lines src)) / 10
            + of_nat (count_matches (js ''function'') src) * 5
            + of_nat (count_matches (js ''class'') src) * 3) 100
   \<and> 1 / 10 \<le> complexityScore (analyzeSecurity src)
   \<and> complexityScore (analyzeSecurity src) \<le> 100"
proof -
  let ?sum = "of_nat (length (scan (split_lines src))) * 10
            + of_nat (length (split_lines src)) / 10
            + of_nat (count_matches (js ''function'') src) * 5
            + of_nat (count_matches (js ''class'') src) * (3 :: rat)"
  have score: "complexityScore (analyzeSecurity src) = min ?sum 100"
    by (simp add: analyzeSecurity_def Let_def)
  have "(of_nat 1 :: rat) \<le> of_nat (length (split_lines src))"
    using length_split_lines [of src] by (rule of_nat_mono)
  then have "(1 :: rat) \<le> of_nat (length (split_lines src))"
    by simp
  then have "1 / 10 \<le> ?sum"
    by (simp add: add_nonneg_nonneg add_increasing2 field_simps)
  with score show ?thesis by simp
qed

section \<open>Properties of the executor and of the handler\<close>

lemma console_method_simps:
  "console_method m =
     (if m = ''log'' then Some Log else if m = ''error'' then Some Error
      else if m = ''warn'' then Some Warn else if m = ''info'' then Some Info else None)"
  by (simp add: console_method_def sandboxConsole_properties_def)

lemma console_call_state:
  assumes "error st = Str e"
  shows "console_call (m, args) st =
     st\<lparr>output' := output' st @ console_output_text [(m, args)],
        error := Str (e @ console_error_text [(m, args)])\<rparr>"
  using assms by (simp add: console_method_simps)

lemma run_calls_state:
  assumes "error st = Str e"
  shows "run_calls calls st =
     st\<lparr>output' := output' st @ console_output_text calls,
        error := Str (e @ console_error_text calls)\<rparr>"
  using assms
proof (induction calls arbitrary: st e)
  case Nil
  then show ?case by simp
next
  case (Cons call calls)
  obtain m args where call: "call = (m, args)" by (cases call)
  let ?st = "console_call (m, args) st"
  have st': "?st = st\<lparr>output' := output' st @ console_output_text [(m, args)],
        error := Str (e @ console_error_text [(m, args)])\<rparr>"
    using Cons.prems by (rule console_call_state)
  then have "error ?st = Str (e @ console_error_text [(m, args)])" by simp
  from Cons.IH [OF this] st' call show ?case by simp
qed

lemma run_calls_initial:
  "run_calls calls initial_state =
     \<lparr>success = Boolean False, output' = console_output_text calls,
      error = Str (console_error_text calls), exitCode = 0\<rparr>"
  using run_calls_state [of initial_state "[]" calls] by (simp add: initial_state_def)








lemma execute_Never:
  "executeJavaScript (Runs calls (Returns (Promise [] Never))) t =
     Some (Inr \<lparr>success = Boolean False, output' = console_output_text calls,
                error = Str (js ''Execution timeout after '' @ number_text t @ js ''ms''),
                exitCode = 1\<rparr>)"
  by (simp add: executeJavaScript_def run_calls_initial caught_message_def calls_until_def
      timeout_error_def Error_object_def)



lemma caught_message_inspectable: "inspectable e \<Longrightarrow> \<exists>m. caught_message e = Inr m"
  by (cases e rule: inspectable.cases) (simp_all add: caught_message_def)

lemma timeout_error_inspectable: "inspectable (timeout_error t)"
  by (simp add: timeout_error_def Error_object_def)

lemma read_result_readable: "readable v \<Longrightarrow> \<exists>st'. read_result v st = Inr st'"
  by (cases v rule: readable.cases) simp_all











text \<open>
  Claim C6, at \<^verbatim>\<open>return new Promise(() => {})\<close> with a timeout of 10 seconds. The timer
  fires first, the result has success false and exit code 1, and its error reads
  \<^verbatim>\<open>Execution timeout after 10ms\<close>: the number of seconds followed by \<^verbatim>\<open>ms\<close>, not
  \<^verbatim>\<open>Execution timeout after 10s\<close>.
\<close>

theorem timeout_message_says_ms:
  "executeJavaScript (Runs [] (Returns (Promise [] Never))) 10 =
     Some (Inr \<lparr>success = Boolean False, output' = [],
                error = Str (js ''Execution timeout after 10ms''), exitCode = 1\<rparr>)
   \<and> js ''Execution timeout after 10ms'' \<noteq> js ''Execution timeout after 10s''"
  by (simp add: execute_Never number_text.simps js_def)






text \<open>
  Claim C8, as the code has it. For a POST request whose body has a non-empty code, no
  other language than JavaScript, and a code that the analysis blocks, the response has
  status 400, success false, an empty output, the error
  \<^verbatim>\<open>Code blocked by security policy\<close>, exit code 1 and the report of the analysis; its
  execution time is the time between the two readings of the clock, in seconds.
\<close>

theorem blocked_response_shape:
  assumes "request_method request = ''POST''" and "request_body request = Payload p"
    and "code p = Some c" and "c \<noteq> []" and "language_refusal (language p) = None"
    and "\<not> allowed (analyzeSecurity c)"
  shows "handleExecute engine max_execution_time request startTime now =
     Some (Inr \<lparr>status = 400,
           body = Outcome
             \<lparr>r_success = Boolean False, r_output = [],
              r_error = Str (js ''Code blocked by security policy''),
              exit_code = 1,
              execution_time = Some ((of_nat now - of_nat startTime) / 1000),
              security_report = Some (analyzeSecurity c)\<rparr>\<rparr>)"
  using assms
  by (simp add: handleExecute_def analyze_and_run_def blocked_response_def elapsed_seconds_def
      Let_def)

lemma eval_blocked: "\<not> allowed (analyzeSecurity (js ''eval(1)''))"
  by (simp add: analysis_defs)

text \<open>
  The theorem at the code \<^verbatim>\<open>eval(1)\<close>, with both readings of the clock equal.
\<close>

theorem blocked_response_shape_witness:
  "handleExecute (\<lambda>c. Runs [] Completes) 10
     \<lparr>request_method = ''POST'',
      request_body = Payload \<lparr>code = Some (js ''eval(1)''), language = Some (js ''javascript''),
                              timeout = None\<rparr>\<rparr> 1000 1000
   = Some (Inr \<lparr>status = 400,
           body = Outcome
             \<lparr>r_success = Boolean False, r_output = [],
              r_error = Str (js ''Code blocked by security policy''),
              exit_code = 1, execution_time = Some 0,
              security_report = Some (analyzeSecurity (js ''eval(1)''))\<rparr>\<rparr>)"
proof -
  let ?p = "\<lparr>code = Some (js ''eval(1)''), language = Some (js ''javascript''), timeout = None\<rparr>"
  let ?r = "\<lparr>request_method = ''POST'', request_body = Payload ?p\<rparr>"
  have "js ''eval(1)'' \<noteq> []" by (simp add: js_def)
  moreover have "language_refusal (language ?p) = None" by simp
  ultimately show ?thesis
    using blocked_response_shape [of ?r ?p "js ''eval(1)''" "\<lambda>c. Runs [] Completes" 10 1000 1000]
      eval_blocked
    by simp
qed

text \<open>
  Claim C8 as stated fails: with 3 milliseconds between the two readings of the clock
  the execution time of the blocking response is 0.003, not 0.
\<close>

theorem blocked_response_time_counterexample:
  "handleExecute (\<lambda>c. Runs [] Completes) 10
     \<lparr>request_method = ''POST'',
      request_body = Payload \<lparr>code = Some (js ''eval(1)''), language = None, timeout = None\<rparr>\<rparr>
     1000 1003
   = Some (Inr \<lparr>status = 400,
           body = Outcome
             \<lparr>r_success = Boolean False, r_output = [],
              r_error = Str (js ''Code blocked by security policy''),
              exit_code = 1, execution_time = Some (3 / 1000),
              security_report = Some (analyzeSecurity (js ''eval(1)''))\<rparr>\<rparr>)
   \<and> (3 / 1000 :: rat) \<noteq> 0"
  using eval_blocked
  by (simp add: handleExecute_def analyze_and_run_def blocked_response_def elapsed_seconds_def
      Let_def js_def)

end
